theory Spec2Isabelle
  imports Complex_Main
begin

text \<open>
  A shallow embedding of the real-time core of the safety backend: the registry of live
  connections (\<open>index.js\<close>), the journey routes (start, stop, deviation-response,
  check-deviation) and the proximity routes of \<open>routes/accounts.js\<close> (nearby users, SOS
  broadcast), with the properties of each.

  Conventions. A handler is a function from its inputs (the registry, the clock, the
  authenticated user \<^verbatim>\<open>req.user\<close>, the request body, the stored users) to its response,
  the user record as the handler leaves it, and the list of its effects in order.
  Coordinates are real numbers and \<open>calculateDistance\<close> is the formula of the code in exact
  arithmetic. The engine evaluates it in doubles, where the result can be \<open>NaN\<close>: the
  check-deviation handler therefore takes the evaluation of the distance as a parameter,
  with the exact one and the double one as instances. Dates are milliseconds since the
  epoch, and the clock readings of one request are one instant \<open>now\<close>. A request body
  field is a JSON value where the validator of the route admits more than one type. The
  nested \<open>activeJourney\<close> of a user document is always an object. The store and the
  socket layer do not throw, and logging is left out. A socket id is a non-empty string,
  hence truthy.
\<close>

section \<open>Presence registry (index.js)\<close>

text \<open>
  \<^verbatim>\<open>const connectedUsers = new Map();\<close> stores \<open>userId -> socketId\<close>. A socket carries
  the authenticated \<open>userId\<close> and its own \<open>id\<close>. The connection handler runs
  \<^verbatim>\<open>connectedUsers.set(userId, socket.id)\<close>; the disconnect handler of that socket runs
  \<^verbatim>\<open>connectedUsers.delete(userId)\<close>.
\<close>

type_synonym userId = string
type_synonym socketId = string
type_synonym registry = "userId \<rightharpoonup> socketId"

record socket =
  socket_userId :: userId
  socket_id :: socketId

definition on_connection :: "registry \<Rightarrow> socket \<Rightarrow> registry" where
  "on_connection connectedUsers s = connectedUsers(socket_userId s \<mapsto> socket_id s)"

definition on_disconnect :: "registry \<Rightarrow> socket \<Rightarrow> registry" where
  "on_disconnect connectedUsers s = connectedUsers(socket_userId s := None)"

section \<open>Geospatial engine (calculateDistance)\<close>

text \<open>
  A JavaScript number as the minimum search of check-deviation sees it: a real number,
  \<^verbatim>\<open>Infinity\<close> (the start value) or \<^verbatim>\<open>NaN\<close>. Every comparison with \<^verbatim>\<open>NaN\<close> is false.
  \<^verbatim>\<open>Math.atan2(y, x)\<close> is the angle of the point \<open>(x, y)\<close> in \<open>(-\<pi>, \<pi>]\<close>.
\<close>

datatype jsnum = Num real | Infinity | NaN

fun js_less :: "jsnum \<Rightarrow> jsnum \<Rightarrow> bool" where
  "js_less NaN m = False"
| "js_less d NaN = False"
| "js_less (Num a) (Num b) = (a < b)"
| "js_less (Num a) Infinity = True"
| "js_less Infinity m = False"

fun js_greater :: "jsnum \<Rightarrow> real \<Rightarrow> bool" where
  "js_greater Infinity t = True"
| "js_greater (Num m) t = (m > t)"
| "js_greater NaN t = False"

definition atan2 :: "real \<Rightarrow> real \<Rightarrow> real" where
  "atan2 y x =
     (if 0 < x then arctan (y / x)
      else if x < 0 then (if 0 \<le> y then arctan (y / x) + pi else arctan (y / x) - pi)
      else if 0 < y then pi / 2
      else if y < 0 then - (pi / 2)
      else 0)"

definition calculateDistance :: "real \<Rightarrow> real \<Rightarrow> real \<Rightarrow> real \<Rightarrow> real" where
  "calculateDistance lat1 lng1 lat2 lng2 =
     (let R = 6371;
          dLat = (lat2 - lat1) * pi / 180;
          dLng = (lng2 - lng1) * pi / 180;
          a = sin (dLat / 2) * sin (dLat / 2) +
              cos (lat1 * pi / 180) * cos (lat2 * pi / 180) *
              sin (dLng / 2) * sin (dLng / 2);
          c = 2 * atan2 (sqrt a) (sqrt (1 - a))
      in R * c)"

text \<open>
  The two evaluations of \<^verbatim>\<open>calculateDistance(lat1, lng1, lat2, lng2)\<close>. In exact arithmetic
  the result is the number above. In doubles the quantity \<open>a\<close> is a rounded value, given here
  by \<open>roundedA\<close>; from there the code takes \<^verbatim>\<open>Math.sqrt(a)\<close> and \<^verbatim>\<open>Math.sqrt(1-a)\<close>, which is
  \<^verbatim>\<open>NaN\<close> for a negative argument, and \<^verbatim>\<open>NaN\<close> goes through \<^verbatim>\<open>atan2\<close> and the products.
\<close>

definition exactDistance :: "real \<Rightarrow> real \<Rightarrow> real \<Rightarrow> real \<Rightarrow> jsnum" where
  "exactDistance lat1 lng1 lat2 lng2 = Num (calculateDistance lat1 lng1 lat2 lng2)"

definition doubleDistance ::
  "(real \<Rightarrow> real \<Rightarrow> real \<Rightarrow> real \<Rightarrow> real) \<Rightarrow> real \<Rightarrow> real \<Rightarrow> real \<Rightarrow> real \<Rightarrow> jsnum" where
  "doubleDistance roundedA lat1 lng1 lat2 lng2 =
     (let R = 6371;
          a = roundedA lat1 lng1 lat2 lng2
      in if a < 0 \<or> 1 - a < 0 then NaN
         else Num (R * (2 * atan2 (sqrt a) (sqrt (1 - a)))))"

definition validateCoordinates :: "real \<Rightarrow> real \<Rightarrow> bool" where
  "validateCoordinates lat lng = (lat \<ge> -90 \<and> lat \<le> 90 \<and> lng \<ge> -180 \<and> lng \<le> 180)"

text \<open>The validator chain \<^verbatim>\<open>isFloat({ min, max })\<close> of the routes.\<close>

definition isFloat :: "real \<Rightarrow> real \<Rightarrow> real \<Rightarrow> bool" where
  "isFloat lo hi x = (lo \<le> x \<and> x \<le> hi)"

text \<open>
  A JSON value of a request body, its truthiness, and the validator \<^verbatim>\<open>isBoolean()\<close>, which
  turns the value into a string and accepts \<^verbatim>\<open>true\<close>, \<^verbatim>\<open>false\<close>, \<^verbatim>\<open>1\<close> and \<^verbatim>\<open>0\<close>; no
  sanitizer turns the accepted value into a boolean.
\<close>

datatype jsvalue = JUndefined | JBool bool | JNumber real | JString string

fun truthy :: "jsvalue \<Rightarrow> bool" where
  "truthy JUndefined = False"
| "truthy (JBool b) = b"
| "truthy (JNumber x) = (x \<noteq> 0)"
| "truthy (JString s) = (s \<noteq> [])"

fun isBoolean :: "jsvalue \<Rightarrow> bool" where
  "isBoolean JUndefined = False"
| "isBoolean (JBool b) = True"
| "isBoolean (JNumber x) = (x = 0 \<or> x = 1)"
| "isBoolean (JString s) = (s = ''true'' \<or> s = ''false'' \<or> s = ''1'' \<or> s = ''0'')"

section \<open>Users, journeys, responses and effects\<close>

type_synonym date = int  \<comment> \<open>milliseconds since the epoch\<close>

record latlng =
  lat :: real
  lng :: real

record waypoint =
  coordinates :: latlng

record journey =
  isActive :: bool
  journey_from :: "waypoint option"
  journey_to :: "waypoint option"
  selectedRoutePath :: "(real \<times> real) list"
  deviationDetected :: bool
  deviationAlertSent :: bool
  deviationAlertTime :: "date option"
  startedAt :: "date option"

record location =
  latitude :: real
  longitude :: real
  address :: "string option"

record user =
  user_id :: userId
  name :: string
  displayName :: "string option"
  accountId :: string
  parentId :: "userId option"
  isAppEnabled :: bool
  currentLocation :: "location option"
  activeJourney :: journey

text \<open>\<^verbatim>\<open>sendSuccess(res, data, message)\<close>, \<^verbatim>\<open>sendError(res, error, statusCode)\<close> and
  \<^verbatim>\<open>sendValidationError\<close>.\<close>

datatype 'a response =
    Success "'a option" "string option"
  | Error string nat
  | ValidationError

text \<open>The payloads that the handlers emit, and the effects of a handler in the order in
  which it performs them: \<^verbatim>\<open>req.user.save()\<close>, \<^verbatim>\<open>User.find(...)\<close> and
  \<^verbatim>\<open>io.to(target).emit(event, payload)\<close>.\<close>

record alertData =
  alert_alertId :: "userId \<times> date"  \<comment> \<open>the template \<^verbatim>\<open>sos_${req.user._id}_${Date.now()}\<close>\<close>
  alert_userId :: userId
  alert_userName :: string
  alert_accountId :: string
  alert_location :: location
  alert_timestamp :: date

datatype payload =
    JourneyStarted userId string journey
  | JourneyStopped userId string
  | DeviationAlert userId string latlng jsnum date
  | SosAlert alertData real

datatype effect =
    Save
  | Find
  | Emit string string payload

text \<open>\<^verbatim>\<open>req.user.displayName || req.user.name\<close>: an empty string is falsy.\<close>

definition childName :: "user \<Rightarrow> string" where
  "childName u =
     (case displayName u of
        None \<Rightarrow> name u
      | Some d \<Rightarrow> if d = [] then name u else d)"

text \<open>The lookup of the parent's socket and the emit to it, shared by the three journey
  handlers that notify the parent.\<close>

definition notifyParent :: "registry \<Rightarrow> user \<Rightarrow> string \<Rightarrow> payload \<Rightarrow> effect list" where
  "notifyParent connectedUsers u event p =
     (case parentId u of
        None \<Rightarrow> []
      | Some pid \<Rightarrow>
          (case connectedUsers pid of
             None \<Rightarrow> []
           | Some parentSocketId \<Rightarrow> [Emit parentSocketId event p]))"

section \<open>Journey routes\<close>

record start_body =
  body_from :: waypoint
  body_to :: waypoint
  body_selectedRoutePath :: "(real \<times> real) list option"

definition journey_start ::
  "registry \<Rightarrow> date \<Rightarrow> user \<Rightarrow> start_body \<Rightarrow> journey response \<times> user \<times> effect list" where
  "journey_start connectedUsers now u b =
     (let f = coordinates (body_from b); t = coordinates (body_to b) in
      if \<not> (isFloat (-90) 90 (lat f) \<and> isFloat (-180) 180 (lng f) \<and>
             isFloat (-90) 90 (lat t) \<and> isFloat (-180) 180 (lng t))
      then (ValidationError, u, [])
      else if \<not> validateCoordinates (lat f) (lng f) \<or> \<not> validateCoordinates (lat t) (lng t)
      then (Error ''Invalid coordinates'' 400, u, [])
      else
        let j = \<lparr>isActive = True,
                 journey_from = Some (body_from b),
                 journey_to = Some (body_to b),
                 selectedRoutePath =
                   (case body_selectedRoutePath b of None \<Rightarrow> [] | Some p \<Rightarrow> p),
                 deviationDetected = False,
                 deviationAlertSent = False,
                 deviationAlertTime = None,
                 startedAt = Some now\<rparr>;
            u' = u\<lparr>activeJourney := j\<rparr>
        in (Success (Some j) (Some ''Journey started successfully''), u',
            Save # notifyParent connectedUsers u' ''child-journey-started''
                     (JourneyStarted (user_id u') (childName u') j)))"

definition journey_stop ::
  "registry \<Rightarrow> user \<Rightarrow> unit response \<times> user \<times> effect list" where
  "journey_stop connectedUsers u =
     (let j = \<lparr>isActive = False,
               journey_from = None,
               journey_to = None,
               selectedRoutePath = [],
               deviationDetected = False,
               deviationAlertSent = False,
               deviationAlertTime = None,
               startedAt = None\<rparr>;
          u' = u\<lparr>activeJourney := j\<rparr>
      in (Success None (Some ''Journey stopped successfully''), u',
          Save # notifyParent connectedUsers u' ''child-journey-stopped''
                   (JourneyStopped (user_id u') (childName u'))))"

text \<open>\<^verbatim>\<open>/deviation-response\<close>: the validator \<^verbatim>\<open>body('isOkay').isBoolean()\<close>, then the
  test \<^verbatim>\<open>if (isOkay)\<close> on the value as it came.\<close>

definition deviation_response ::
  "user \<Rightarrow> jsvalue \<Rightarrow> unit response \<times> user \<times> effect list" where
  "deviation_response u isOkay =
     (if \<not> isBoolean isOkay then (ValidationError, u, [])
      else if truthy isOkay then
        (Success None (Some ''Response recorded successfully''),
         u\<lparr>activeJourney :=
              (activeJourney u)\<lparr>deviationDetected := False,
                                deviationAlertSent := False,
                                deviationAlertTime := None\<rparr>\<rparr>,
         [Save])
      else (Error ''Invalid response'' 400, u, []))"

text \<open>\<^verbatim>\<open>/check-deviation\<close>: the \<^verbatim>\<open>forEach\<close> over the route path, then the branches.
  \<open>evalDist\<close> is the evaluation of \<^verbatim>\<open>calculateDistance\<close>. The test \<^verbatim>\<open>!journey\<close> of the guard
  never holds, the journey being an object.\<close>

fun minDistanceLoop ::
  "(real \<Rightarrow> real \<Rightarrow> real \<Rightarrow> real \<Rightarrow> jsnum) \<Rightarrow> real \<Rightarrow> real \<Rightarrow> (real \<times> real) list \<Rightarrow>
     jsnum \<Rightarrow> jsnum" where
  "minDistanceLoop evalDist currentLat currentLng [] minDistance = minDistance"
| "minDistanceLoop evalDist currentLat currentLng (point # rest) minDistance =
     (let distance = evalDist currentLat currentLng (fst point) (snd point)
      in minDistanceLoop evalDist currentLat currentLng rest
           (if js_less distance minDistance then distance else minDistance))"

record deviation_data =
  onRoute :: bool
  distanceFromRoute :: "jsnum option"
  alertSent :: bool
  alertPending :: bool
  parentAlerted :: bool
  message :: string

definition DEVIATION_THRESHOLD :: real where
  "DEVIATION_THRESHOLD = 0.2"

definition noJourney :: deviation_data where
  "noJourney = \<lparr>onRoute = True, distanceFromRoute = None, alertSent = False,
      alertPending = False, parentAlerted = False,
      message = ''No active journey or route path''\<rparr>"

definition check_deviation_with ::
  "(real \<Rightarrow> real \<Rightarrow> real \<Rightarrow> real \<Rightarrow> jsnum) \<Rightarrow> registry \<Rightarrow> date \<Rightarrow> user \<Rightarrow> real \<Rightarrow> real \<Rightarrow>
     deviation_data response \<times> user \<times> effect list" where
  "check_deviation_with evalDist connectedUsers now u currentLat currentLng =
     (if \<not> (isFloat (-90) 90 currentLat \<and> isFloat (-180) 180 currentLng)
      then (ValidationError, u, [])
      else if \<not> validateCoordinates currentLat currentLng
      then (Error ''Invalid coordinates'' 400, u, [])
      else
        let journey = activeJourney u in
        if \<not> isActive journey \<or> selectedRoutePath journey = []
        then (Success (Some noJourney) None, u, [])
        else
          let minDistance =
                minDistanceLoop evalDist currentLat currentLng (selectedRoutePath journey) Infinity;
              isOffRoute = js_greater minDistance DEVIATION_THRESHOLD
          in
          if isOffRoute \<and> \<not> deviationAlertSent journey then
            (Success (Some \<lparr>onRoute = False, distanceFromRoute = Some minDistance,
                alertSent = True, alertPending = False, parentAlerted = False,
                message =
                  ''You seem to have gone off your planned route. Are you okay?''\<rparr>)
               None,
             u\<lparr>activeJourney :=
                  journey\<lparr>deviationDetected := True,
                          deviationAlertSent := True,
                          deviationAlertTime := Some now\<rparr>\<rparr>,
             [Save])
          else if isOffRoute \<and> deviationAlertSent journey then
            (let alertTime =
                   (case deviationAlertTime journey of None \<Rightarrow> 0 | Some t \<Rightarrow> t);
                 minutesSinceAlert = real_of_int (now - alertTime) / 1000 / 60
             in
             if minutesSinceAlert > 5 \<and> parentId u \<noteq> None then
               (Success (Some \<lparr>onRoute = False, distanceFromRoute = Some minDistance,
                   alertSent = False, alertPending = False, parentAlerted = True,
                   message = ''Parent has been notified''\<rparr>)
                  None,
                u,
                notifyParent connectedUsers u ''child-deviation-alert''
                  (DeviationAlert (user_id u) (childName u)
                     \<lparr>lat = currentLat, lng = currentLng\<rparr> minDistance now))
             else
               (Success (Some \<lparr>onRoute = False, distanceFromRoute = Some minDistance,
                   alertSent = False, alertPending = True, parentAlerted = False,
                   message = ''Waiting for response''\<rparr>)
                  None, u, []))
          else
            (Success (Some \<lparr>onRoute = True, distanceFromRoute = Some minDistance,
                alertSent = False, alertPending = False, parentAlerted = False,
                message = ''On route''\<rparr>)
               None, u, []))"

text \<open>The handler in exact arithmetic.\<close>

definition check_deviation ::
  "registry \<Rightarrow> date \<Rightarrow> user \<Rightarrow> real \<Rightarrow> real \<Rightarrow>
     deviation_data response \<times> user \<times> effect list" where
  "check_deviation = check_deviation_with exactDistance"

section \<open>Proximity routes (accounts.js)\<close>

record nearby_user =
  nu_userId :: userId
  nu_name :: string
  nu_accountId :: string
  nu_distance :: real
  nu_location :: location

record nearby_data =
  nearbyUsers :: "nearby_user list"
  nearby_count :: nat
  nearby_radiusKm :: real

record sos_data =
  alertId :: "userId \<times> date"
  nearbyUsersNotified :: nat
  nearbyUserIds :: "userId list"

text \<open>\<^verbatim>\<open>x || null\<close> on an optional string: the empty string is falsy.\<close>

definition orNull :: "string option \<Rightarrow> string option" where
  "orNull a = (case a of None \<Rightarrow> None | Some s \<Rightarrow> if s = [] then None else Some s)"

text \<open>
  The query \<^verbatim>\<open>User.find({ _id: { $ne: req.user._id }, isAppEnabled: true,
  'currentLocation.latitude': { $exists: true }, 'currentLocation.longitude': { $exists: true } })\<close>
  over the stored users, in the order of the store.
\<close>

definition findCandidates :: "user list \<Rightarrow> user \<Rightarrow> user list" where
  "findCandidates db caller =
     filter (\<lambda>x. user_id x \<noteq> user_id caller \<and> isAppEnabled x \<and> currentLocation x \<noteq> None) db"

text \<open>The \<^verbatim>\<open>for (const user of allUsers)\<close> loop of \<^verbatim>\<open>/nearby/users\<close>. The guard
  \<^verbatim>\<open>user.currentLocation && user.currentLocation.latitude\<close> tests the latitude for
  truthiness: the number \<open>0\<close> is falsy.\<close>

fun nearbyLoop ::
  "real \<Rightarrow> real \<Rightarrow> real \<Rightarrow> user list \<Rightarrow> nearby_user list \<Rightarrow> nearby_user list" where
  "nearbyLoop reqLat reqLng radius [] acc = acc"
| "nearbyLoop reqLat reqLng radius (x # rest) acc =
     (case currentLocation x of
        None \<Rightarrow> nearbyLoop reqLat reqLng radius rest acc
      | Some loc \<Rightarrow>
          if latitude loc \<noteq> 0 then
            (let distance = calculateDistance reqLat reqLng (latitude loc) (longitude loc)
             in if distance \<le> radius then
                  nearbyLoop reqLat reqLng radius rest
                    (acc @ [\<lparr>nu_userId = user_id x, nu_name = name x,
                             nu_accountId = accountId x, nu_distance = distance,
                             nu_location = \<lparr>latitude = latitude loc,
                               longitude = longitude loc,
                               address = orNull (address loc)\<rparr>\<rparr>])
                else nearbyLoop reqLat reqLng radius rest acc)
          else nearbyLoop reqLat reqLng radius rest acc)"

text \<open>\<^verbatim>\<open>nearbyUsers.sort((a, b) => a.distance - b.distance)\<close>: \<^verbatim>\<open>Array.prototype.sort\<close> is
  a stable sort, here by the \<open>distance\<close> key.\<close>

definition nearby_users ::
  "user list \<Rightarrow> user \<Rightarrow> real \<Rightarrow> real \<Rightarrow> real option \<Rightarrow> nearby_data response \<times> effect list" where
  "nearby_users db caller reqLat reqLng reqRadius =
     (if \<not> (isFloat (-90) 90 reqLat \<and> isFloat (-180) 180 reqLng \<and>
            (case reqRadius of None \<Rightarrow> True | Some r \<Rightarrow> isFloat 0 100 r))
      then (ValidationError, [])
      else
        let radius = (case reqRadius of None \<Rightarrow> 5 | Some r \<Rightarrow> r) in
        if \<not> validateCoordinates reqLat reqLng
        then (Error ''Invalid coordinates'' 400, [])
        else if (case currentLocation caller of None \<Rightarrow> True | Some loc \<Rightarrow> latitude loc = 0)
        then (Error ''Your location is not available. Please enable location updates.'' 400, [])
        else
          let allUsers = findCandidates db caller;
              sorted_users = sort_key nu_distance (nearbyLoop reqLat reqLng radius allUsers [])
          in (Success (Some \<lparr>nearbyUsers = sorted_users,
                              nearby_count = length sorted_users,
                              nearby_radiusKm = radius\<rparr>) None,
              [Find]))"

text \<open>\<^verbatim>\<open>parseFloat(distance.toFixed(2))\<close>: the nearest multiple of \<open>1/100\<close>, the larger one
  on a tie, computed on the absolute value.\<close>

definition toFixed2 :: "real \<Rightarrow> real" where
  "toFixed2 x =
     (if x < 0 then - (real_of_int \<lfloor>(- x) * 100 + 1 / 2\<rfloor> / 100)
      else real_of_int \<lfloor>x * 100 + 1 / 2\<rfloor> / 100)"

text \<open>The loop of \<^verbatim>\<open>/sos-broadcast\<close>: it collects the ids and emits to the room
  \<^verbatim>\<open>user:${user._id}\<close> of each user within the radius.\<close>

fun sosLoop ::
  "alertData \<Rightarrow> real \<Rightarrow> real \<Rightarrow> real \<Rightarrow> user list \<Rightarrow> userId list \<Rightarrow> effect list \<Rightarrow>
     userId list \<times> effect list" where
  "sosLoop alert reqLat reqLng radius [] ids emitted = (ids, emitted)"
| "sosLoop alert reqLat reqLng radius (x # rest) ids emitted =
     (case currentLocation x of
        None \<Rightarrow> sosLoop alert reqLat reqLng radius rest ids emitted
      | Some loc \<Rightarrow>
          if latitude loc \<noteq> 0 then
            (let distance = calculateDistance reqLat reqLng (latitude loc) (longitude loc)
             in if distance \<le> radius then
                  sosLoop alert reqLat reqLng radius rest
                    (ids @ [user_id x])
                    (emitted @ [Emit (''user:'' @ user_id x) ''nearby-sos-alert''
                                  (SosAlert alert (toFixed2 distance))])
                else sosLoop alert reqLat reqLng radius rest ids emitted)
          else sosLoop alert reqLat reqLng radius rest ids emitted)"

text \<open>The address of the alert:
  \<^verbatim>\<open>address || req.user.currentLocation?.address || null\<close>.\<close>

definition alertAddress :: "string option \<Rightarrow> user \<Rightarrow> string option" where
  "alertAddress reqAddress caller =
     (case orNull reqAddress of
        Some a \<Rightarrow> Some a
      | None \<Rightarrow>
          (case currentLocation caller of
             None \<Rightarrow> None
           | Some loc \<Rightarrow> orNull (address loc)))"

definition sos_broadcast ::
  "user list \<Rightarrow> date \<Rightarrow> user \<Rightarrow> real \<Rightarrow> real \<Rightarrow> string option \<Rightarrow>
     sos_data response \<times> effect list" where
  "sos_broadcast db now caller reqLat reqLng reqAddress =
     (if \<not> (isFloat (-90) 90 reqLat \<and> isFloat (-180) 180 reqLng)
      then (ValidationError, [])
      else if \<not> validateCoordinates reqLat reqLng
      then (Error ''Invalid coordinates'' 400, [])
      else
        let radius = 5;
            newId = (user_id caller, now);
            allUsers = findCandidates db caller;
            alert = \<lparr>alert_alertId = newId,
                     alert_userId = user_id caller,
                     alert_userName = name caller,
                     alert_accountId = accountId caller,
                     alert_location = \<lparr>latitude = reqLat, longitude = reqLng,
                       address = alertAddress reqAddress caller\<rparr>,
                     alert_timestamp = now\<rparr>;
            sent = sosLoop alert reqLat reqLng radius allUsers [] []
        in (Success (Some \<lparr>alertId = newId,
                            nearbyUsersNotified = length (fst sent),
                            nearbyUserIds = fst sent\<rparr>) None,
            Find # snd sent))"

section \<open>Specification-side notions\<close>

text \<open>The Journey invariant of the data model: \<open>deviationAlertTime\<close> is non-null iff
  \<open>deviationAlertSent\<close> is true.\<close>

definition journey_inv :: "journey \<Rightarrow> bool" where
  "journey_inv j = ((deviationAlertTime j \<noteq> None) = deviationAlertSent j)"

definition user_inv :: "user \<Rightarrow> bool" where
  "user_inv u = journey_inv (activeJourney u)"

text \<open>A journey whose three deviation fields are clear.\<close>

definition cleared :: "journey \<Rightarrow> bool" where
  "cleared j = (\<not> deviationDetected j \<and> \<not> deviationAlertSent j \<and> deviationAlertTime j = None)"

text \<open>The minimum over the vertices of a path of the distance from a point.\<close>

definition vertexMin :: "real \<Rightarrow> real \<Rightarrow> (real \<times> real) list \<Rightarrow> real" where
  "vertexMin p_lat p_lng path =
     Min ((\<lambda>q. calculateDistance p_lat p_lng (fst q) (snd q)) ` set path)"

text \<open>
  The haversine formula in the specification's words: the great-circle distance of two
  points given in degrees, on a sphere of radius 6371 km, with the haversine
  \<open>hav \<theta> = (1 - cos \<theta>) / 2\<close>.
\<close>

definition hav :: "real \<Rightarrow> real" where
  "hav t = (1 - cos t) / 2"

definition haversineKm :: "real \<Rightarrow> real \<Rightarrow> real \<Rightarrow> real \<Rightarrow> real" where
  "haversineKm lat1 lng1 lat2 lng2 =
     2 * 6371 *
       arcsin (sqrt (hav ((lat2 - lat1) * pi / 180) +
                     cos (lat1 * pi / 180) * cos (lat2 * pi / 180) *
                       hav ((lng2 - lng1) * pi / 180)))"

text \<open>A stored user that the two proximity loops keep for an origin and a radius.\<close>

definition matched :: "real \<Rightarrow> real \<Rightarrow> real \<Rightarrow> user \<Rightarrow> bool" where
  "matched reqLat reqLng radius x =
     (case currentLocation x of
        None \<Rightarrow> False
      | Some loc \<Rightarrow>
          latitude loc \<noteq> 0 \<and>
          calculateDistance reqLat reqLng (latitude loc) (longitude loc) \<le> radius)"

text \<open>The entry that the \<^verbatim>\<open>/nearby/users\<close> loop pushes for a stored user, if it pushes one.\<close>

definition nearbyEntry :: "real \<Rightarrow> real \<Rightarrow> real \<Rightarrow> user \<Rightarrow> nearby_user option" where
  "nearbyEntry reqLat reqLng radius x =
     (case currentLocation x of
        None \<Rightarrow> None
      | Some loc \<Rightarrow>
          if latitude loc \<noteq> 0 \<and>
             calculateDistance reqLat reqLng (latitude loc) (longitude loc) \<le> radius
          then Some \<lparr>nu_userId = user_id x, nu_name = name x, nu_accountId = accountId x,
                 nu_distance = calculateDistance reqLat reqLng (latitude loc) (longitude loc),
                 nu_location = \<lparr>latitude = latitude loc, longitude = longitude loc,
                   address = orNull (address loc)\<rparr>\<rparr>
          else None)"

text \<open>A stored user whose recorded position is within the radius of the origin, and a
  stored user whose recorded latitude is a truthy number.\<close>

definition withinRadius :: "real \<Rightarrow> real \<Rightarrow> real \<Rightarrow> user \<Rightarrow> bool" where
  "withinRadius reqLat reqLng radius x =
     (case currentLocation x of
        None \<Rightarrow> False
      | Some loc \<Rightarrow> calculateDistance reqLat reqLng (latitude loc) (longitude loc) \<le> radius)"

definition latitudeTruthy :: "user \<Rightarrow> bool" where
  "latitudeTruthy x =
     (case currentLocation x of None \<Rightarrow> True | Some loc \<Rightarrow> latitude loc \<noteq> 0)"

text \<open>The distance of a stored user with a location from an origin.\<close>

definition distanceOf :: "real \<Rightarrow> real \<Rightarrow> user \<Rightarrow> real" where
  "distanceOf reqLat reqLng x =
     (case currentLocation x of
        None \<Rightarrow> 0
      | Some loc \<Rightarrow> calculateDistance reqLat reqLng (latitude loc) (longitude loc))"

section \<open>Example data\<close>

definition route_journey :: journey where
  "route_journey =
     \<lparr>isActive = True, journey_from = None, journey_to = None,
      selectedRoutePath = [(0, 180)],
      deviationDetected = False, deviationAlertSent = False,
      deviationAlertTime = None, startedAt = Some 0\<rparr>"

definition pending_journey :: journey where
  "pending_journey =
     route_journey\<lparr>deviationDetected := True, deviationAlertSent := True,
       deviationAlertTime := Some 0\<rparr>"

definition antipode_journey :: journey where
  "antipode_journey = route_journey\<lparr>selectedRoutePath := [(-8, 180)]\<rparr>"

definition stopped_journey :: journey where
  "stopped_journey =
     \<lparr>isActive = False, journey_from = None, journey_to = None,
      selectedRoutePath = [],
      deviationDetected = False, deviationAlertSent = False,
      deviationAlertTime = None, startedAt = None\<rparr>"


definition child :: "journey \<Rightarrow> user" where
  "child j =
     \<lparr>user_id = ''c1'', name = ''Asha'', displayName = None, accountId = ''ACC1'',
      parentId = Some ''p1'', isAppEnabled = True, currentLocation = None,
      activeJourney = j\<rparr>"

definition person :: "userId \<Rightarrow> real \<Rightarrow> real \<Rightarrow> user" where
  "person i la lo =
     \<lparr>user_id = i, name = i, displayName = None, accountId = i,
      parentId = None, isAppEnabled = True,
      currentLocation = Some \<lparr>latitude = la, longitude = lo, address = None\<rparr>,
      activeJourney = stopped_journey\<rparr>"

section \<open>Presence registry: properties\<close>

text \<open>
  C1 (as stated): after connection A and then connection B register for identity X, the
  disconnect of the stale A leaves X mapped to B. The disconnect handler deletes the
  entry of the identity whatever socket disconnects, so at the concrete sockets below the
  registry has no entry for X any more.
\<close>

theorem stale_disconnect_evicts_counterexample:
  "on_disconnect
     (on_connection
        (on_connection Map.empty \<lparr>socket_userId = ''X'', socket_id = ''A''\<rparr>)
        \<lparr>socket_userId = ''X'', socket_id = ''B''\<rparr>)
     \<lparr>socket_userId = ''X'', socket_id = ''A''\<rparr> ''X'' \<noteq> Some ''B''"
  by (simp add: on_disconnect_def on_connection_def)

text \<open>
  C1 (amended): the disconnect of any socket of identity X removes the entry of X and
  leaves every other identity's entry as it was; in particular after A, then B register
  for X and A disconnects, X is unmapped.
\<close>

theorem disconnect_removes_identity:
  "on_disconnect
     (on_connection
        (on_connection connectedUsers \<lparr>socket_userId = X, socket_id = A\<rparr>)
        \<lparr>socket_userId = X, socket_id = B\<rparr>)
     \<lparr>socket_userId = X, socket_id = A\<rparr> = connectedUsers(X := None)"
  by (simp add: on_disconnect_def on_connection_def)

theorem disconnect_removes_identity_witness:
  "on_disconnect
     (on_connection
        (on_connection [''Y'' \<mapsto> ''C''] \<lparr>socket_userId = ''X'', socket_id = ''A''\<rparr>)
        \<lparr>socket_userId = ''X'', socket_id = ''B''\<rparr>)
     \<lparr>socket_userId = ''X'', socket_id = ''A''\<rparr> ''X'' = None"
  using disconnect_removes_identity [of "[''Y'' \<mapsto> ''C'']" "''X''" "''A''" "''B''"]
  by simp

section \<open>Geospatial engine: evaluation at special points\<close>

lemma calculateDistance_self: "calculateDistance p q p q = 0"
  by (simp add: calculateDistance_def atan2_def)

lemma calculateDistance_antipode: "calculateDistance 0 0 0 180 = 6371 * pi"
  by (simp add: calculateDistance_def atan2_def Let_def)

lemma calculateDistance_sym:
  "calculateDistance lat1 lng1 lat2 lng2 = calculateDistance lat2 lng2 lat1 lng1"
proof -
  have 1: "(lat1 - lat2) * pi / 180 / 2 = - ((lat2 - lat1) * pi / 180 / 2)"
    by (simp add: left_diff_distrib diff_divide_distrib)
  have 2: "(lng1 - lng2) * pi / 180 / 2 = - ((lng2 - lng1) * pi / 180 / 2)"
    by (simp add: left_diff_distrib diff_divide_distrib)
  show ?thesis
    unfolding calculateDistance_def Let_def 1 2 sin_minus
    by (simp add: mult.commute)
qed

lemma calculateDistance_along_meridian:
  assumes "0 < l' - l" "l' - l < 180"
  shows "calculateDistance l q l' q = 6371 * ((l' - l) * pi / 180)"
proof -
  let ?h = "(l' - l) * pi / 180 / 2"
  have h: "0 < ?h" "?h < pi / 2" using assms by simp_all
  then have s: "0 < sin ?h" and c: "0 < cos ?h"
    by (simp_all add: sin_gt_zero2 cos_gt_zero)
  have a: "sqrt (sin ?h * sin ?h) = sin ?h"
    using s by (simp add: real_sqrt_mult_self)
  have "1 - sin ?h * sin ?h = cos ?h * cos ?h"
    using sin_cos_squared_add3 [of ?h] by linarith
  then have b: "sqrt (1 - sin ?h * sin ?h) = cos ?h"
    using c by (simp add: real_sqrt_mult_self)
  have "atan2 (sin ?h) (cos ?h) = arctan (tan ?h)"
    using c by (simp add: atan2_def tan_def)
  also have "\<dots> = ?h"
  proof (rule arctan_tan)
    show "- (pi / 2) < ?h" using h(1) pi_gt_zero by linarith
    show "?h < pi / 2" by (rule h(2))
  qed
  finally have t: "atan2 (sin ?h) (cos ?h) = ?h" .
  have "calculateDistance l q l' q =
      6371 * (2 * atan2 (sqrt (sin ?h * sin ?h)) (sqrt (1 - sin ?h * sin ?h)))"
    by (simp add: calculateDistance_def Let_def)
  also have "\<dots> = 6371 * (2 * ?h)"
    by (simp only: a b t)
  also have "\<dots> = 6371 * ((l' - l) * pi / 180)"
    by simp
  finally show ?thesis .
qed


text \<open>Only vertices count: on the route from \<open>(0, 10)\<close> to \<open>(90, 10)\<close> along a meridian,
  the point \<open>(45, 10)\<close> of that meridian is a quarter of the half circumference away from
  the nearest vertex.\<close>

lemma vertex_only_midpoint:
  "vertexMin 45 10 [(0, 10), (90, 10)] = 6371 * (45 * pi / 180)"
proof -
  have "calculateDistance 45 10 0 10 = calculateDistance 0 10 45 10"
    by (rule calculateDistance_sym)
  also have "\<dots> = 6371 * ((45 - 0) * pi / 180)"
    by (rule calculateDistance_along_meridian) simp_all
  finally have 1: "calculateDistance 45 10 0 10 = 6371 * (45 * pi / 180)" by simp
  have "calculateDistance 45 10 90 10 = 6371 * ((90 - 45) * pi / 180)"
    by (rule calculateDistance_along_meridian) simp_all
  then have 2: "calculateDistance 45 10 90 10 = 6371 * (45 * pi / 180)" by simp
  show ?thesis
    by (simp add: vertexMin_def 1 2)
qed

text \<open>The code's \<^verbatim>\<open>atan2\<close> form is the haversine formula for latitudes in range.\<close>

lemma hav_sin: "hav t = sin (t / 2) * sin (t / 2)"
  using cos_double_sin [of "t / 2"] by (simp add: hav_def power2_eq_square)

lemma hav_range: "0 \<le> hav t" "hav t \<le> 1"
  using cos_le_one [of t] cos_ge_minus_one [of t] by (simp_all add: hav_def)

lemma haversine_arg_range:
  assumes "- (pi / 2) \<le> A" "A \<le> pi / 2" "- (pi / 2) \<le> B" "B \<le> pi / 2"
  shows "0 \<le> hav (B - A) + cos A * cos B * hav y"
    and "hav (B - A) + cos A * cos B * hav y \<le> 1"
proof -
  have cA: "0 \<le> cos A" and cB: "0 \<le> cos B"
    using assms by (simp_all add: cos_ge_zero)
  then have cc: "0 \<le> cos A * cos B" by simp
  show "0 \<le> hav (B - A) + cos A * cos B * hav y"
    using cc hav_range(1) [of y] hav_range(1) [of "B - A"] by simp
  have "cos A * cos B * hav y \<le> cos A * cos B"
    using cc hav_range(2) [of y] by (simp add: mult_left_le)
  moreover have "hav (B - A) = (1 - cos A * cos B - sin A * sin B) / 2"
    by (simp add: hav_def cos_diff algebra_simps)
  moreover have "cos A * cos B - sin A * sin B \<le> 1"
    using cos_le_one [of "A + B"] by (simp add: cos_add)
  ultimately show "hav (B - A) + cos A * cos B * hav y \<le> 1"
    by simp
qed

lemma atan2_sqrt_arcsin:
  assumes "0 \<le> a" "a \<le> 1"
  shows "atan2 (sqrt a) (sqrt (1 - a)) = arcsin (sqrt a)"
proof (cases "a = 1")
  case True
  then show ?thesis by (simp add: atan2_def)
next
  case False
  let ?s = "sqrt a"
  let ?t = "arcsin ?s"
  have s: "0 \<le> ?s" "?s < 1" using assms False by simp_all
  have "cos ?t = sqrt (1 - ?s\<^sup>2)"
  proof (rule cos_arcsin)
    show "- 1 \<le> ?s" using s(1) by linarith
    show "?s \<le> 1" using s(2) by linarith
  qed
  then have c: "cos ?t = sqrt (1 - a)"
    using assms by simp
  have pos: "0 < sqrt (1 - a)" using assms False by simp
  have s': "- 1 < ?s" using s(1) by linarith
  have "- (pi / 2) < ?t" "?t < pi / 2"
    using arcsin_lt_bounded [OF s' s(2)] by simp_all
  then have "arctan (tan ?t) = ?t" by (rule arctan_tan)
  moreover have "sin ?t = ?s"
    using s' s(2) by (intro sin_arcsin) linarith+
  then have "tan ?t = ?s / sqrt (1 - a)"
    by (simp add: tan_def c)
  ultimately show ?thesis using pos by (simp add: atan2_def)
qed

lemma degrees_quarter_turn:
  assumes "-90 \<le> d" "d \<le> 90"
  shows "- (pi / 2) \<le> d * pi / 180" and "d * pi / 180 \<le> pi / 2"
proof -
  have "d * pi \<le> 90 * pi"
    using assms(2) by (intro mult_right_mono) simp_all
  then show "d * pi / 180 \<le> pi / 2" by simp
  have "(- 90) * pi \<le> d * pi"
    using assms(1) by (intro mult_right_mono) simp_all
  then show "- (pi / 2) \<le> d * pi / 180" by simp
qed

lemma calculateDistance_haversine:
  assumes "-90 \<le> lat1" "lat1 \<le> 90" "-90 \<le> lat2" "lat2 \<le> 90"
  shows "calculateDistance lat1 lng1 lat2 lng2 = haversineKm lat1 lng1 lat2 lng2"
proof -
  let ?A = "lat1 * pi / 180" and ?B = "lat2 * pi / 180"
  let ?x = "(lat2 - lat1) * pi / 180" and ?y = "(lng2 - lng1) * pi / 180"
  let ?a = "hav ?x + cos ?A * cos ?B * hav ?y"
  have x: "?x = ?B - ?A" by (simp add: left_diff_distrib diff_divide_distrib)
  note A = degrees_quarter_turn [OF assms(1,2)]
  note B = degrees_quarter_turn [OF assms(3,4)]
  have r: "0 \<le> ?a" "?a \<le> 1"
    unfolding x by (rule haversine_arg_range [OF A B])+
  have "calculateDistance lat1 lng1 lat2 lng2 = 6371 * (2 * atan2 (sqrt ?a) (sqrt (1 - ?a)))"
    by (simp add: calculateDistance_def Let_def hav_sin algebra_simps)
  also have "\<dots> = 6371 * (2 * arcsin (sqrt ?a))"
    by (simp only: atan2_sqrt_arcsin [OF r])
  finally show ?thesis by (simp add: haversineKm_def)
qed

section \<open>The loops as list functions, and the branches of check-deviation\<close>


lemma nearbyLoop_map_filter:
  "nearbyLoop la lo r xs acc = acc @ List.map_filter (nearbyEntry la lo r) xs"
  by (induction xs arbitrary: acc)
    (simp_all add: nearbyEntry_def Let_def List.map_filter_simps split: option.splits)

lemma sosLoop_filter:
  "sosLoop alert la lo r xs ids emitted =
     (ids @ map user_id (filter (matched la lo r) xs),
      emitted @ map (\<lambda>x. Emit (''user:'' @ user_id x) ''nearby-sos-alert''
                      (SosAlert alert (toFixed2 (distanceOf la lo x))))
                  (filter (matched la lo r) xs))"
  by (induction xs arbitrary: ids emitted)
    (simp_all add: matched_def distanceOf_def Let_def split: option.splits)


lemma minDistanceLoop_fold:
  "minDistanceLoop exactDistance la lo path (Num m) =
     Num (fold min (map (\<lambda>q. calculateDistance la lo (fst q) (snd q)) path) m)"
  by (induction path arbitrary: m) (simp_all add: Let_def min_def exactDistance_def)

lemma minDistanceLoop_Min:
  "minDistanceLoop exactDistance la lo path Infinity =
     (if path = [] then Infinity else Num (vertexMin la lo path))"
proof (cases path)
  case Nil
  then show ?thesis by simp
next
  case (Cons p ps)
  let ?f = "\<lambda>q. calculateDistance la lo (fst q) (snd q)"
  have "minDistanceLoop exactDistance la lo path Infinity = Num (fold min (map ?f ps) (?f p))"
    using Cons by (simp add: Let_def minDistanceLoop_fold exactDistance_def)
  also have "fold min (map ?f ps) (?f p) = Min (set (?f p # map ?f ps))"
    by (simp only: Min.set_eq_fold)
  finally show ?thesis using Cons by (simp add: vertexMin_def)
qed

lemma valid_isFloat:
  "validateCoordinates la lo \<Longrightarrow> isFloat (-90) 90 la \<and> isFloat (-180) 180 lo"
  by (simp add: validateCoordinates_def isFloat_def)

lemma check_deviation_active:
  assumes "validateCoordinates la lo" "activeJourney u = j" "isActive j"
    "selectedRoutePath j \<noteq> []"
  shows "check_deviation cu now u la lo =
     (let minDistance = Num (vertexMin la lo (selectedRoutePath j));
          isOffRoute = vertexMin la lo (selectedRoutePath j) > DEVIATION_THRESHOLD
      in
       if isOffRoute \<and> \<not> deviationAlertSent j then
         (Success (Some \<lparr>onRoute = False, distanceFromRoute = Some minDistance,
             alertSent = True, alertPending = False, parentAlerted = False,
             message = ''You seem to have gone off your planned route. Are you okay?''\<rparr>)
            None,
          u\<lparr>activeJourney :=
               (j\<lparr>deviationDetected := True, deviationAlertSent := True,
                        deviationAlertTime := Some now\<rparr>)\<rparr>,
          [Save])
       else if isOffRoute then
         (if real_of_int (now - (case deviationAlertTime j of None \<Rightarrow> 0 | Some t \<Rightarrow> t))
               / 1000 / 60 > 5 \<and> parentId u \<noteq> None then
            (Success (Some \<lparr>onRoute = False, distanceFromRoute = Some minDistance,
                alertSent = False, alertPending = False, parentAlerted = True,
                message = ''Parent has been notified''\<rparr>)
               None, u,
             notifyParent cu u ''child-deviation-alert''
               (DeviationAlert (user_id u) (childName u) \<lparr>lat = la, lng = lo\<rparr>
                  minDistance now))
          else
            (Success (Some \<lparr>onRoute = False, distanceFromRoute = Some minDistance,
                alertSent = False, alertPending = True, parentAlerted = False,
                message = ''Waiting for response''\<rparr>)
               None, u, []))
       else
         (Success (Some \<lparr>onRoute = True, distanceFromRoute = Some minDistance,
             alertSent = False, alertPending = False, parentAlerted = False,
             message = ''On route''\<rparr>)
            None, u, []))"
  using assms valid_isFloat [OF assms(1)]
  by (simp add: check_deviation_def check_deviation_with_def minDistanceLoop_Min Let_def)

lemma check_deviation_user_cases:
  "fst (snd (check_deviation_with evalDist cu now u la lo)) = u \<or>
   fst (snd (check_deviation_with evalDist cu now u la lo)) =
     u\<lparr>activeJourney :=
          (activeJourney u)\<lparr>deviationDetected := True, deviationAlertSent := True,
                            deviationAlertTime := Some now\<rparr>\<rparr>"
  by (simp add: check_deviation_with_def Let_def)

lemma valid_origin: "validateCoordinates 0 0" "validateCoordinates 0 180" "validateCoordinates 0 10"
  by (simp_all add: validateCoordinates_def)

lemma vertexMin_far: "vertexMin 0 0 [(0, 180)] = 6371 * pi"
  by (simp add: vertexMin_def calculateDistance_antipode)


lemma far_off_route: "6371 * pi > (0.2 :: real)"
  using pi_ge_two by simp

section \<open>Journey deviation engine: properties\<close>







text \<open>With a boolean \<open>isOkay\<close> the route does what the specification says.\<close>

lemma deviation_response_boolean:
  assumes "activeJourney u = j"
  shows "deviation_response u (JBool True) =
       (Success None (Some ''Response recorded successfully''),
        u\<lparr>activeJourney :=
             (j\<lparr>deviationDetected := False, deviationAlertSent := False,
                      deviationAlertTime := None\<rparr>)\<rparr>,
        [Save]) \<and>
     deviation_response u (JBool False) = (Error ''Invalid response'' 400, u, []) \<and>
     (validateCoordinates currentLat currentLng \<and> isActive j \<and>
      selectedRoutePath j \<noteq> [] \<and>
      vertexMin currentLat currentLng (selectedRoutePath j) > 0.2 \<longrightarrow>
      fst (check_deviation connectedUsers now (fst (snd (deviation_response u (JBool True))))
             currentLat currentLng) =
        Success (Some \<lparr>onRoute = False,
          distanceFromRoute =
            Some (Num (vertexMin currentLat currentLng (selectedRoutePath j))),
          alertSent = True, alertPending = False, parentAlerted = False,
          message = ''You seem to have gone off your planned route. Are you okay?''\<rparr>)
         None)"
proof -
  let ?j' = "j\<lparr>deviationDetected := False, deviationAlertSent := False,
                deviationAlertTime := None\<rparr>"
  let ?u' = "u\<lparr>activeJourney := ?j'\<rparr>"
  have ok: "deviation_response u (JBool True) =
       (Success None (Some ''Response recorded successfully''), ?u', [Save])"
    using assms by (simp add: deviation_response_def)
  have no: "deviation_response u (JBool False) = (Error ''Invalid response'' 400, u, [])"
    by (simp add: deviation_response_def)
  have again: "fst (check_deviation connectedUsers now ?u' currentLat currentLng) =
        Success (Some \<lparr>onRoute = False,
          distanceFromRoute =
            Some (Num (vertexMin currentLat currentLng (selectedRoutePath j))),
          alertSent = True, alertPending = False, parentAlerted = False,
          message = ''You seem to have gone off your planned route. Are you okay?''\<rparr>)
         None"
    if "validateCoordinates currentLat currentLng" "isActive j" "selectedRoutePath j \<noteq> []"
      "vertexMin currentLat currentLng (selectedRoutePath j) > 0.2"
  proof -
    have "activeJourney ?u' = ?j'" by simp
    moreover have "isActive ?j'" "selectedRoutePath ?j' \<noteq> []" using that by simp_all
    ultimately show ?thesis
      using that(1,4)
      by (simp add: check_deviation_active [where j = ?j'] DEVIATION_THRESHOLD_def)
  qed
  show ?thesis using ok no again by simp
qed

text \<open>
  C5: the claim has a response with \<open>isOkay = false\<close> rejected as invalid input with no
  state mutation. The validator \<^verbatim>\<open>isBoolean()\<close> accepts the string \<^verbatim>\<open>"false"\<close> and leaves
  it a string, which \<^verbatim>\<open>if (isOkay)\<close> takes for true: the request
  \<^verbatim>\<open>{"isOkay": "false"}\<close> of a traveler with a pending deviation is answered with a
  success, and the three deviation fields are cleared and saved.
\<close>

theorem deviation_response_string_false:
  "deviation_response (child pending_journey) (JString ''false'') =
     (Success None (Some ''Response recorded successfully''), child route_journey, [Save])"
proof -
  have "child pending_journey
      \<lparr>activeJourney := (activeJourney (child pending_journey))
          \<lparr>deviationDetected := False, deviationAlertSent := False,
           deviationAlertTime := None\<rparr>\<rparr> = child route_journey"
    by (simp add: child_def pending_journey_def route_journey_def)
  then show ?thesis
    by (simp add: deviation_response_def)
qed

theorem deviation_response_string_false_witness:
  "isBoolean (JString ''false'') \<and> truthy (JString ''false'') \<and>
   deviationAlertSent (activeJourney (child pending_journey)) \<and>
   fst (deviation_response (child pending_journey) (JString ''false'')) =
     Success None (Some ''Response recorded successfully'') \<and>
   cleared (activeJourney
     (fst (snd (deviation_response (child pending_journey) (JString ''false'')))))"
  using deviation_response_string_false
  by (simp add: child_def pending_journey_def route_journey_def cleared_def)

text \<open>
  C9: the invariant "\<open>deviationAlertTime\<close> is non-null iff \<open>deviationAlertSent\<close> is true"
  is preserved by start, stop, check-deviation (every branch, error answers included,
  for every evaluation of the distance) and deviation-response (every answer), for every
  input of theirs.
\<close>

theorem journey_invariant_preserved:
  assumes "user_inv u"
  shows "user_inv (fst (snd (journey_start connectedUsers now u b))) \<and>
     user_inv (fst (snd (journey_stop connectedUsers u))) \<and>
     user_inv (fst (snd (check_deviation connectedUsers now u currentLat currentLng))) \<and>
     user_inv (fst (snd (deviation_response u isOkay))) \<and>
     user_inv (fst (snd (check_deviation_with evalDist connectedUsers now u currentLat currentLng)))"
proof -
  have 1: "user_inv (fst (snd (journey_start connectedUsers now u b)))"
    using assms by (simp add: journey_start_def Let_def user_inv_def journey_inv_def)
  have 2: "user_inv (fst (snd (journey_stop connectedUsers u)))"
    by (simp add: journey_stop_def Let_def user_inv_def journey_inv_def)
  have 3: "user_inv (fst (snd (check_deviation_with d connectedUsers now u currentLat currentLng)))"
    for d
    using assms check_deviation_user_cases [of d connectedUsers now u currentLat currentLng]
    by (auto simp: user_inv_def journey_inv_def)
  have 4: "user_inv (fst (snd (deviation_response u isOkay)))"
    using assms
    by (simp add: deviation_response_def user_inv_def journey_inv_def)
  from 1 2 3 [of exactDistance] 3 [of evalDist] 4 show ?thesis
    by (simp add: check_deviation_def)
qed

theorem journey_invariant_preserved_witness:
  "user_inv (child route_journey) \<and>
   user_inv (fst (snd (check_deviation Map.empty 1000 (child route_journey) 0 0))) \<and>
   activeJourney (fst (snd (check_deviation Map.empty 1000 (child route_journey) 0 0))) =
     (route_journey\<lparr>deviationDetected := True, deviationAlertSent := True,
                    deviationAlertTime := Some 1000\<rparr>)"
proof -
  have h: "user_inv (child route_journey)"
    by (simp add: user_inv_def journey_inv_def child_def route_journey_def)
  have p: "selectedRoutePath route_journey = [(0, 180)]" by (simp add: route_journey_def)
  have "check_deviation Map.empty 1000 (child route_journey) 0 0 =
     (Success (Some \<lparr>onRoute = False, distanceFromRoute = Some (Num (6371 * pi)),
         alertSent = True, alertPending = False, parentAlerted = False,
         message = ''You seem to have gone off your planned route. Are you okay?''\<rparr>)
        None,
      child (route_journey\<lparr>deviationDetected := True, deviationAlertSent := True,
                    deviationAlertTime := Some 1000\<rparr>),
      [Save])"
    using far_off_route
    by (simp add: check_deviation_active [where j = route_journey] valid_origin p
        vertexMin_far child_def route_journey_def DEVIATION_THRESHOLD_def)
  then have t: "activeJourney
       (fst (snd (check_deviation Map.empty 1000 (child route_journey) 0 0))) =
     (route_journey\<lparr>deviationDetected := True, deviationAlertSent := True,
                    deviationAlertTime := Some 1000\<rparr>)"
    by (simp add: child_def)
  from journey_invariant_preserved [OF h, of Map.empty 1000 _ 0 0] h t
  show ?thesis by blast
qed

lemma check_deviation_escalation:
  assumes "validateCoordinates la lo"
    and "activeJourney u = j" and "isActive j" and "selectedRoutePath j \<noteq> []"
    and "deviationAlertSent j" and "deviationAlertTime j = Some t"
    and "vertexMin la lo (selectedRoutePath j) > 0.2"
    and "now - t > 300000"
  shows "check_deviation cu now u la lo =
     (if parentId u \<noteq> None then
        (Success (Some \<lparr>onRoute = False,
            distanceFromRoute = Some (Num (vertexMin la lo (selectedRoutePath j))),
            alertSent = False, alertPending = False, parentAlerted = True,
            message = ''Parent has been notified''\<rparr>)
           None, u,
         notifyParent cu u ''child-deviation-alert''
           (DeviationAlert (user_id u) (childName u) \<lparr>lat = la, lng = lo\<rparr>
              (Num (vertexMin la lo (selectedRoutePath j))) now))
      else
        (Success (Some \<lparr>onRoute = False,
            distanceFromRoute = Some (Num (vertexMin la lo (selectedRoutePath j))),
            alertSent = False, alertPending = True, parentAlerted = False,
            message = ''Waiting for response''\<rparr>)
           None, u, []))"
proof -
  have "real_of_int (now - t) > 300000" using assms(8) by linarith
  then have "real_of_int (now - t) / 1000 / 60 > 5" by simp
  then show ?thesis
    using assms(1-7)
    by (simp add: check_deviation_active [where j = j] DEVIATION_THRESHOLD_def Let_def)
qed

text \<open>
  C2: with \<open>deviationAlertSent\<close> set, the point off the route and more than five minutes
  elapsed, the claim has \<open>parentAlerted = true\<close> exactly when the parent has a live
  connection, and \<open>alertPending = true\<close> otherwise. The handler tests
  \<^verbatim>\<open>req.user.parentId\<close> only: for a traveler whose parent is not connected it emits
  nothing and still answers \<open>parentAlerted = true\<close>, "Parent has been notified". The
  evaluation below is at such a traveler (empty registry, alert time 0, now 300001 ms).
\<close>

theorem check_deviation_parent_offline:
  "check_deviation Map.empty 300001 (child pending_journey) 0 0 =
     (Success (Some \<lparr>onRoute = False, distanceFromRoute = Some (Num (6371 * pi)),
         alertSent = False, alertPending = False, parentAlerted = True,
         message = ''Parent has been notified''\<rparr>)
        None, child pending_journey, [])"
proof -
  have p: "selectedRoutePath pending_journey = [(0, 180)]"
    by (simp add: pending_journey_def route_journey_def)
  have "check_deviation Map.empty 300001 (child pending_journey) 0 0 =
     (if parentId (child pending_journey) \<noteq> None then
        (Success (Some \<lparr>onRoute = False,
            distanceFromRoute = Some (Num (vertexMin 0 0 (selectedRoutePath pending_journey))),
            alertSent = False, alertPending = False, parentAlerted = True,
            message = ''Parent has been notified''\<rparr>)
           None, child pending_journey,
         notifyParent Map.empty (child pending_journey) ''child-deviation-alert''
           (DeviationAlert (user_id (child pending_journey)) (childName (child pending_journey))
              \<lparr>lat = 0, lng = 0\<rparr>
              (Num (vertexMin 0 0 (selectedRoutePath pending_journey))) 300001))
      else
        (Success (Some \<lparr>onRoute = False,
            distanceFromRoute = Some (Num (vertexMin 0 0 (selectedRoutePath pending_journey))),
            alertSent = False, alertPending = True, parentAlerted = False,
            message = ''Waiting for response''\<rparr>)
           None, child pending_journey, []))"
  proof (rule check_deviation_escalation [where j = pending_journey and t = 0])
    show "validateCoordinates 0 0" by (rule valid_origin)
    show "activeJourney (child pending_journey) = pending_journey"
      by (simp add: child_def)
    show "isActive pending_journey" by (simp add: pending_journey_def route_journey_def)
    show "selectedRoutePath pending_journey \<noteq> []" by (simp add: p)
    show "deviationAlertSent pending_journey" by (simp add: pending_journey_def)
    show "deviationAlertTime pending_journey = Some 0" by (simp add: pending_journey_def)
    show "vertexMin 0 0 (selectedRoutePath pending_journey) > 0.2"
      using far_off_route by (simp add: p vertexMin_far)
    show "(300001::int) - 0 > 300000" by simp
  qed
  then show ?thesis
    by (simp add: p vertexMin_far notifyParent_def child_def)
qed

theorem check_deviation_parent_offline_witness:
  "parentId (child pending_journey) = Some ''p1'' \<and>
   (Map.empty :: registry) ''p1'' = None \<and>
   deviationAlertSent pending_journey \<and>
   deviationAlertTime pending_journey = Some 0 \<and>
   fst (check_deviation Map.empty 300001 (child pending_journey) 0 0) =
     Success (Some \<lparr>onRoute = False, distanceFromRoute = Some (Num (6371 * pi)),
         alertSent = False, alertPending = False, parentAlerted = True,
         message = ''Parent has been notified''\<rparr>) None \<and>
   snd (snd (check_deviation Map.empty 300001 (child pending_journey) 0 0)) = []"
  using check_deviation_parent_offline
  by (simp add: child_def pending_journey_def)

text \<open>In exact arithmetic the loop is the minimum over the vertices of the path, the
  answer carries it, and the distance is the haversine great-circle distance.\<close>

lemma exact_distanceFromRoute_vertex_minimum:
  assumes "path \<noteq> []"
  shows "minDistanceLoop exactDistance p_lat p_lng path Infinity =
       Num (Min ((\<lambda>q. calculateDistance p_lat p_lng (fst q) (snd q)) ` set path)) \<and>
     minDistanceLoop evalDist p_lat p_lng [] Infinity = Infinity \<and>
     (validateCoordinates p_lat p_lng \<and> activeJourney u = j \<and> isActive j \<and>
      selectedRoutePath j = path \<longrightarrow>
        (\<exists>d. fst (check_deviation connectedUsers now u p_lat p_lng) = Success (Some d) None \<and>
           distanceFromRoute d =
             Some (Num (Min ((\<lambda>q. calculateDistance p_lat p_lng (fst q) (snd q)) ` set path))))) \<and>
     (validateCoordinates p_lat p_lng \<and> activeJourney u0 = j0 \<and>
      selectedRoutePath j0 = [] \<longrightarrow>
        check_deviation_with evalDist connectedUsers now u0 p_lat p_lng =
          (Success (Some noJourney) None, u0, [])) \<and>
     (-90 \<le> p_lat \<and> p_lat \<le> 90 \<longrightarrow>
        (\<forall>q \<in> set path. -90 \<le> fst q \<and> fst q \<le> 90 \<longrightarrow>
           calculateDistance p_lat p_lng (fst q) (snd q) =
             haversineKm p_lat p_lng (fst q) (snd q)))"
proof -
  let ?m = "Min ((\<lambda>q. calculateDistance p_lat p_lng (fst q) (snd q)) ` set path)"
  have m: "vertexMin p_lat p_lng path = ?m" by (simp add: vertexMin_def)
  have 1: "minDistanceLoop exactDistance p_lat p_lng path Infinity = Num ?m"
    using assms by (simp add: minDistanceLoop_Min m)
  have 2: "minDistanceLoop evalDist p_lat p_lng [] Infinity = Infinity" by simp
  have 3: "\<exists>d. fst (check_deviation connectedUsers now u p_lat p_lng) = Success (Some d) None \<and>
           distanceFromRoute d = Some (Num ?m)"
    if "validateCoordinates p_lat p_lng" "activeJourney u = j" "isActive j"
      "selectedRoutePath j = path"
  proof -
    have ne: "selectedRoutePath j \<noteq> []" using that(4) assms by simp
    show ?thesis
      unfolding check_deviation_active [OF that(1,2,3) ne]
      by (simp add: Let_def that(4) m)
  qed
  have 4: "calculateDistance p_lat p_lng (fst q) (snd q) = haversineKm p_lat p_lng (fst q) (snd q)"
    if "-90 \<le> p_lat" "p_lat \<le> 90" "-90 \<le> fst q" "fst q \<le> 90" for q
    using that by (rule calculateDistance_haversine)
  have 5: "check_deviation_with evalDist connectedUsers now u0 p_lat p_lng =
      (Success (Some noJourney) None, u0, [])"
    if "validateCoordinates p_lat p_lng" "activeJourney u0 = j0"
      "selectedRoutePath j0 = []"
    using that valid_isFloat [OF that(1)] by (simp add: check_deviation_with_def)
  from 1 2 3 4 5 show ?thesis by blast
qed

text \<open>The points \<open>(8, 0)\<close> and \<open>(-8, 180)\<close> are antipodal: in exact arithmetic the quantity
  \<open>a\<close> is \<open>1\<close> and the distance is half the circumference.\<close>

lemma calculateDistance_antipodal_pair: "calculateDistance 8 0 (-8) 180 = 6371 * pi"
proof -
  let ?x = "8 * pi / 180"
  have 1: "(- 8 - 8) * pi / 180 / 2 = - ?x" by simp
  have 2: "(180 - 0) * pi / 180 / 2 = pi / 2" by simp
  have 3: "- 8 * pi / 180 = - ?x" by simp
  have a: "sin (- ?x) * sin (- ?x) + cos ?x * cos (- ?x) * sin (pi / 2) * sin (pi / 2) = 1"
    using sin_cos_squared_add3 [of ?x] by (simp add: add.commute)
  have "calculateDistance 8 0 (-8) 180 = 6371 * (2 * atan2 (sqrt 1) (sqrt (1 - 1)))"
    unfolding calculateDistance_def Let_def 1 2 3 a ..
  then show ?thesis by (simp add: atan2_def)
qed

text \<open>
  C6: the claim has the \<open>distanceFromRoute\<close> of a check equal to the minimum over the
  vertices \<open>q\<close> of the haversine distance from the current point to \<open>q\<close>, for every point
  and every non-empty path. In exact arithmetic that is so
  (\<open>exact_distanceFromRoute_vertex_minimum\<close>). The code computes in doubles and does not
  keep the quantity \<open>a\<close> within \<open>[0, 1]\<close>: for the current point \<open>(8, 0)\<close> and the route vertex
  \<open>(-8, 180)\<close> the doubles give \<open>a = 1.0000000000000002\<close>, hence \<^verbatim>\<open>Math.sqrt(1-a)\<close> and the
  distance are \<^verbatim>\<open>NaN\<close>, the test \<^verbatim>\<open>distance < minDistance\<close> is false and the minimum stays
  \<^verbatim>\<open>Infinity\<close>: that is the \<open>distanceFromRoute\<close> of the answer, where the minimum over
  the vertices is \<open>6371 \<pi>\<close> km.
\<close>

theorem check_deviation_double_antipode:
  assumes "1 < roundedA 8 0 (-8) 180"
  shows "doubleDistance roundedA 8 0 (-8) 180 = NaN \<and>
     minDistanceLoop (doubleDistance roundedA) 8 0 (selectedRoutePath antipode_journey) Infinity =
       Infinity \<and>
     check_deviation_with (doubleDistance roundedA) connectedUsers now (child antipode_journey) 8 0 =
       (Success (Some \<lparr>onRoute = False, distanceFromRoute = Some Infinity,
           alertSent = True, alertPending = False, parentAlerted = False,
           message = ''You seem to have gone off your planned route. Are you okay?''\<rparr>)
          None,
        child (antipode_journey\<lparr>deviationDetected := True, deviationAlertSent := True,
                    deviationAlertTime := Some now\<rparr>),
        [Save]) \<and>
     vertexMin 8 0 (selectedRoutePath antipode_journey) = 6371 * pi"
proof -
  have p: "selectedRoutePath antipode_journey = [(-8, 180)]"
    by (simp add: antipode_journey_def)
  have n: "doubleDistance roundedA 8 0 (-8) 180 = NaN"
    using assms by (simp add: doubleDistance_def Let_def)
  have l: "minDistanceLoop (doubleDistance roundedA) 8 0 (selectedRoutePath antipode_journey)
      Infinity = Infinity"
    by (simp add: p n Let_def)
  have v: "validateCoordinates 8 0" by (simp add: validateCoordinates_def)
  have c: "check_deviation_with (doubleDistance roundedA) connectedUsers now
        (child antipode_journey) 8 0 =
       (Success (Some \<lparr>onRoute = False, distanceFromRoute = Some Infinity,
           alertSent = True, alertPending = False, parentAlerted = False,
           message = ''You seem to have gone off your planned route. Are you okay?''\<rparr>)
          None,
        child (antipode_journey\<lparr>deviationDetected := True, deviationAlertSent := True,
                    deviationAlertTime := Some now\<rparr>),
        [Save])"
    using v valid_isFloat [OF v] l
    by (simp add: check_deviation_with_def Let_def child_def p antipode_journey_def
        route_journey_def)
  have m: "vertexMin 8 0 (selectedRoutePath antipode_journey) = 6371 * pi"
    by (simp add: p vertexMin_def calculateDistance_antipodal_pair)
  from n l c m show ?thesis by blast
qed

theorem check_deviation_double_antipode_witness:
  "(1 :: real) < 1 + 1 / 2 ^ 52 \<and>
   fst (check_deviation_with (doubleDistance (\<lambda>lat1 lng1 lat2 lng2. 1 + 1 / 2 ^ 52))
          Map.empty 1000 (child antipode_journey) 8 0) =
     Success (Some \<lparr>onRoute = False, distanceFromRoute = Some Infinity,
         alertSent = True, alertPending = False, parentAlerted = False,
         message = ''You seem to have gone off your planned route. Are you okay?''\<rparr>)
        None \<and>
   vertexMin 8 0 (selectedRoutePath antipode_journey) = 6371 * pi"
proof -
  have h: "(1 :: real) < 1 + 1 / 2 ^ 52" by simp
  then have h': "1 < (\<lambda>lat1 lng1 lat2 lng2. 1 + 1 / 2 ^ 52 :: real) 8 0 (- 8) 180" by simp
  note T = check_deviation_double_antipode [OF h', of Map.empty 1000]
  have a: "fst (check_deviation_with (doubleDistance (\<lambda>lat1 lng1 lat2 lng2. 1 + 1 / 2 ^ 52))
          Map.empty 1000 (child antipode_journey) 8 0) =
     Success (Some \<lparr>onRoute = False, distanceFromRoute = Some Infinity,
         alertSent = True, alertPending = False, parentAlerted = False,
         message = ''You seem to have gone off your planned route. Are you okay?''\<rparr>)
        None"
    using T [THEN conjunct2, THEN conjunct2, THEN conjunct1] by simp
  have b: "vertexMin 8 0 (selectedRoutePath antipode_journey) = 6371 * pi"
    using T [THEN conjunct2, THEN conjunct2, THEN conjunct2] .
  from h a b show ?thesis by blast
qed

section \<open>Proximity routes: properties\<close>

lemma matched_withinRadius:
  "latitudeTruthy x \<Longrightarrow> matched la lo r x = withinRadius la lo r x"
  by (simp add: matched_def withinRadius_def latitudeTruthy_def split: option.splits)

lemma filter_matched_withinRadius:
  assumes "\<forall>x \<in> set xs. latitudeTruthy x"
  shows "filter (matched la lo r) xs = filter (withinRadius la lo r) xs"
  using assms by (intro filter_cong) (simp_all add: matched_withinRadius)

lemma set_findCandidates: "set (findCandidates db caller) \<subseteq> set db"
  by (auto simp: findCandidates_def)

lemma sos_broadcast_valid:
  assumes "validateCoordinates la lo"
  shows "sos_broadcast db now caller la lo addr =
     (let recipients = filter (matched la lo 5) (findCandidates db caller);
          alert = \<lparr>alert_alertId = (user_id caller, now),
                   alert_userId = user_id caller,
                   alert_userName = name caller,
                   alert_accountId = accountId caller,
                   alert_location = \<lparr>latitude = la, longitude = lo,
                     address = alertAddress addr caller\<rparr>,
                   alert_timestamp = now\<rparr>
      in (Success (Some \<lparr>alertId = (user_id caller, now),
                          nearbyUsersNotified = length recipients,
                          nearbyUserIds = map user_id recipients\<rparr>) None,
          Find # map (\<lambda>x. Emit (''user:'' @ user_id x) ''nearby-sos-alert''
                            (SosAlert alert (toFixed2 (distanceOf la lo x))))
                   recipients))"
  using assms valid_isFloat [OF assms]
  by (simp add: sos_broadcast_def sosLoop_filter Let_def)

lemma nearby_users_valid:
  assumes "validateCoordinates la lo"
    and "case r of None \<Rightarrow> True | Some x \<Rightarrow> isFloat 0 100 x"
    and "currentLocation caller = Some loc" and "latitude loc \<noteq> 0"
  shows "nearby_users db caller la lo r =
     (let radius = (case r of None \<Rightarrow> 5 | Some x \<Rightarrow> x);
          found = sort_key nu_distance
                    (List.map_filter (nearbyEntry la lo radius) (findCandidates db caller))
      in (Success (Some \<lparr>nearbyUsers = found, nearby_count = length found,
                          nearby_radiusKm = radius\<rparr>) None,
          [Find]))"
  using assms valid_isFloat [OF assms(1)]
  by (simp add: nearby_users_def nearbyLoop_map_filter Let_def)

lemma insort_key_map:
  "insort_key f (g x) (map g xs) = map g (insort_key (\<lambda>y. f (g y)) x xs)"
  by (induction xs) simp_all

lemma sort_key_map: "sort_key f (map g xs) = map g (sort_key (\<lambda>y. f (g y)) xs)"
  by (induction xs) (simp_all add: insort_key_map)

lemma insort_key_agree:
  assumes "f x = g x" "\<forall>y \<in> set xs. f y = g y"
  shows "insort_key f x xs = insort_key g x xs"
  using assms by (induction xs) simp_all

lemma sort_key_agree:
  assumes "\<forall>x \<in> set xs. f x = g x"
  shows "sort_key f xs = sort_key g xs"
  using assms
proof (induction xs)
  case Nil
  show ?case by simp
next
  case (Cons x xs)
  then have "sort_key f xs = sort_key g xs" by simp
  moreover have "insort_key f x (sort_key g xs) = insort_key g x (sort_key g xs)"
    using Cons.prems by (intro insort_key_agree) simp_all
  ultimately show ?case by simp
qed

lemma nearbyEntry_matched: "(nearbyEntry la lo r x \<noteq> None) = matched la lo r x"
  by (simp add: nearbyEntry_def matched_def split: option.splits)

lemma nearbyEntry_fields:
  assumes "matched la lo r x"
  shows "nu_distance (the (nearbyEntry la lo r x)) = distanceOf la lo x"
    and "nu_userId (the (nearbyEntry la lo r x)) = user_id x"
  using assms
  by (auto simp: nearbyEntry_def matched_def distanceOf_def split: option.splits)

lemma nearby_found_sorted_filter:
  fixes la lo r cands
  defines "found \<equiv> sort_key nu_distance (List.map_filter (nearbyEntry la lo r) cands)"
    and "ranked \<equiv> sort_key (distanceOf la lo) (filter (matched la lo r) cands)"
  shows "map nu_userId found = map user_id ranked"
    and "map nu_distance found = map (distanceOf la lo) ranked"
proof -
  let ?g = "the \<circ> nearbyEntry la lo r"
  let ?ys = "filter (matched la lo r) cands"
  have k: "sort_key (\<lambda>y. nu_distance (?g y)) ?ys = sort_key (distanceOf la lo) ?ys"
    by (rule sort_key_agree) (simp add: nearbyEntry_fields)
  have "List.map_filter (nearbyEntry la lo r) cands = map ?g ?ys"
    by (simp only: List.map_filter_def nearbyEntry_matched)
  then have f: "found = map ?g ranked"
    unfolding found_def ranked_def by (simp only: sort_key_map k)
  have in_ys: "\<forall>x \<in> set ranked. matched la lo r x"
    by (simp add: ranked_def)
  show "map nu_userId found = map user_id ranked"
    unfolding f using in_ys by (simp add: nearbyEntry_fields)
  show "map nu_distance found = map (distanceOf la lo) ranked"
    unfolding f using in_ys by (simp add: nearbyEntry_fields)
qed

lemma nearby_users_ranked:
  assumes "validateCoordinates la lo"
    and "case r of None \<Rightarrow> True | Some x \<Rightarrow> isFloat 0 100 x"
    and "currentLocation caller = Some loc" and "latitude loc \<noteq> 0"
    and "\<forall>x \<in> set db. latitudeTruthy x"
  shows "\<exists>found.
     nearby_users db caller la lo r =
       (Success (Some \<lparr>nearbyUsers = found, nearby_count = length found,
          nearby_radiusKm = (case r of None \<Rightarrow> 5 | Some x \<Rightarrow> x)\<rparr>) None, [Find]) \<and>
     map nu_userId found =
       map user_id (sort_key (distanceOf la lo)
         (filter (withinRadius la lo (case r of None \<Rightarrow> 5 | Some x \<Rightarrow> x))
            (findCandidates db caller))) \<and>
     map nu_distance found =
       map (distanceOf la lo) (sort_key (distanceOf la lo)
         (filter (withinRadius la lo (case r of None \<Rightarrow> 5 | Some x \<Rightarrow> x))
            (findCandidates db caller)))"
proof -
  let ?radius = "case r of None \<Rightarrow> 5 | Some x \<Rightarrow> x"
  let ?cands = "findCandidates db caller"
  let ?found = "sort_key nu_distance (List.map_filter (nearbyEntry la lo ?radius) ?cands)"
  have "\<forall>x \<in> set ?cands. latitudeTruthy x"
    using assms(5) set_findCandidates [of db caller] by blast
  then have w: "filter (matched la lo ?radius) ?cands = filter (withinRadius la lo ?radius) ?cands"
    by (rule filter_matched_withinRadius)
  have "nearby_users db caller la lo r =
       (Success (Some \<lparr>nearbyUsers = ?found, nearby_count = length ?found,
          nearby_radiusKm = ?radius\<rparr>) None, [Find])"
    unfolding nearby_users_valid [OF assms(1-4)] by (simp add: Let_def)
  moreover note nearby_found_sorted_filter [of la lo ?radius ?cands, unfolded w]
  ultimately show ?thesis by blast
qed

text \<open>
  C7: the claim has \<open>/nearby/users\<close> return exactly the candidates within the radius,
  ranked by distance. For candidates whose recorded latitude is a truthy number that is
  what the handler does (\<open>nearby_users_ranked\<close>; the sort is stable by
  \<open>sort_key_stable\<close>). A candidate on the equator, latitude \<open>0\<close>, fails the truthiness
  test of the loop and is left out although the query selected it and its distance is
  within the radius: below, the candidate \<open>b\<close> is at the origin of the search itself.
\<close>

theorem nearby_users_equator_candidate:
  "nearby_users [person ''a'' 1 78, person ''b'' 0 78] (person ''a'' 1 78) 0 78 None =
     (Success (Some \<lparr>nearbyUsers = [], nearby_count = 0, nearby_radiusKm = 5\<rparr>) None, [Find]) \<and>
   findCandidates [person ''a'' 1 78, person ''b'' 0 78] (person ''a'' 1 78) = [person ''b'' 0 78] \<and>
   distanceOf 0 78 (person ''b'' 0 78) = 0"
proof -
  have v: "validateCoordinates 0 78" by (simp add: validateCoordinates_def)
  have c: "findCandidates [person ''a'' 1 78, person ''b'' 0 78] (person ''a'' 1 78) =
      [person ''b'' 0 78]"
    by (simp add: findCandidates_def person_def)
  have d: "distanceOf 0 78 (person ''b'' 0 78) = 0"
    by (simp add: distanceOf_def person_def calculateDistance_self)
  have e: "nearbyEntry 0 78 5 (person ''b'' 0 78) = None"
    by (simp add: nearbyEntry_def person_def)
  have r: "case None of None \<Rightarrow> True | Some x \<Rightarrow> isFloat 0 100 x" by simp
  have l: "currentLocation (person ''a'' 1 78) =
      Some \<lparr>latitude = 1, longitude = 78, address = None\<rparr>"
    by (simp add: person_def)
  have t: "latitude \<lparr>latitude = 1, longitude = 78, address = None\<rparr> \<noteq> 0" by simp
  have "nearby_users [person ''a'' 1 78, person ''b'' 0 78] (person ''a'' 1 78) 0 78 None =
     (Success (Some \<lparr>nearbyUsers = [], nearby_count = 0, nearby_radiusKm = 5\<rparr>) None, [Find])"
    unfolding nearby_users_valid [OF v r l t]
    by (simp add: c e List.map_filter_simps)
  with c d show ?thesis by blast
qed

theorem nearby_users_equator_candidate_witness:
  "fst (nearby_users [person ''a'' 1 78, person ''b'' 0 78] (person ''a'' 1 78) 0 78 None) =
     Success (Some \<lparr>nearbyUsers = [], nearby_count = 0, nearby_radiusKm = 5\<rparr>) None \<and>
   distanceOf 0 78 (person ''b'' 0 78) \<le> 5"
  using nearby_users_equator_candidate by simp












text \<open>
  C10: for a caller without a stored location \<open>/nearby/users\<close> performs no query and
  never answers with a success; when the request itself is valid the answer is the 400
  error "Your location is not available ...". \<open>/sos-broadcast\<close> has no such guard: with
  valid coordinates the same caller gets a success after the query ran.
\<close>

theorem nearby_users_requires_stored_location:
  assumes "currentLocation caller = None"
  shows "snd (nearby_users db caller reqLat reqLng reqRadius) = [] \<and>
     (\<forall>d m. fst (nearby_users db caller reqLat reqLng reqRadius) \<noteq> Success d m) \<and>
     (validateCoordinates reqLat reqLng \<and>
      (case reqRadius of None \<Rightarrow> True | Some r \<Rightarrow> isFloat 0 100 r) \<longrightarrow>
        nearby_users db caller reqLat reqLng reqRadius =
          (Error ''Your location is not available. Please enable location updates.'' 400, []) \<and>
        (\<exists>d es. sos_broadcast db now caller reqLat reqLng reqAddress =
           (Success (Some d) None, Find # es)))"
proof -
  have 1: "snd (nearby_users db caller reqLat reqLng reqRadius) = []"
    using assms by (simp add: nearby_users_def Let_def)
  have 2: "fst (nearby_users db caller reqLat reqLng reqRadius) \<noteq> Success d m" for d m
    using assms by (simp add: nearby_users_def Let_def)
  have 3: "nearby_users db caller reqLat reqLng reqRadius =
          (Error ''Your location is not available. Please enable location updates.'' 400, [])"
    if "validateCoordinates reqLat reqLng"
      "case reqRadius of None \<Rightarrow> True | Some r \<Rightarrow> isFloat 0 100 r"
    using assms that valid_isFloat [OF that(1)] by (simp add: nearby_users_def Let_def)
  have 4: "\<exists>d es. sos_broadcast db now caller reqLat reqLng reqAddress =
           (Success (Some d) None, Find # es)"
    if "validateCoordinates reqLat reqLng"
    unfolding sos_broadcast_valid [OF that] by (simp add: Let_def)
  from 1 2 3 4 show ?thesis by blast
qed

theorem nearby_users_requires_stored_location_witness:
  "currentLocation (child route_journey) = None \<and>
   validateCoordinates 0 10 \<and>
   nearby_users [person ''b'' (1 / 100000) 10] (child route_journey) 0 10 None =
     (Error ''Your location is not available. Please enable location updates.'' 400, []) \<and>
   (\<exists>d es. sos_broadcast [person ''b'' (1 / 100000) 10] 1000 (child route_journey) 0 10 None =
      (Success (Some d) None, Find # es))"
proof -
  have h: "currentLocation (child route_journey) = None" by (simp add: child_def)
  have v: "validateCoordinates 0 10" by (rule valid_origin)
  have r: "case None of None \<Rightarrow> True | Some r \<Rightarrow> isFloat 0 100 r" by simp
  note T = nearby_users_requires_stored_location [OF h,
      of "[person ''b'' (1 / 100000) 10]" 0 10 None 1000 None,
      THEN conjunct2, THEN conjunct2]
  from T v r h show ?thesis by blast
qed

end
